theory Spec2Isabelle
  imports Main "HOL-Library.Word"
begin

unbundle bit_operations_syntax

section \<open>Machine types and Go slice primitives\<close>

type_synonym u8 = "8 word"
type_synonym u16 = "16 word"
type_synonym u32 = "32 word"
type_synonym u64 = "64 word"

text \<open>Go's builtin \<^verbatim>\<open>copy(dst, src)\<close>: the first \<open>min (len dst) (len src)\<close> elements of
  \<open>dst\<close> are overwritten, the rest of \<open>dst\<close> is kept. The result is the new content of \<open>dst\<close>.\<close>

definition copy_go :: "'a list \<Rightarrow> 'a list \<Rightarrow> 'a list" where
  "copy_go dst src = take (length dst) src @ drop (length src) dst"

text \<open>\<^verbatim>\<open>copy(b[lo:hi], src)\<close> seen from the backing array \<open>b\<close> (for \<open>lo \<le> hi \<le> len b\<close>).\<close>

definition copy_slice :: "'a list \<Rightarrow> nat \<Rightarrow> nat \<Rightarrow> 'a list \<Rightarrow> 'a list" where
  "copy_slice b lo hi src = take lo b @ copy_go (take (hi - lo) (drop lo b)) src @ drop hi b"

text \<open>\<^verbatim>\<open>binary.BigEndian.PutUint32(b[o:o+4], v)\<close> and \<^verbatim>\<open>binary.BigEndian.Uint32(b[o:o+4])\<close>.\<close>

definition PutUint32 :: "u8 list \<Rightarrow> nat \<Rightarrow> u32 \<Rightarrow> u8 list" where
  "PutUint32 b o' v =
     b[o' := ucast (drop_bit 24 v), o' + 1 := ucast (drop_bit 16 v),
       o' + 2 := ucast (drop_bit 8 v), o' + 3 := ucast v]"

definition Uint32 :: "u8 list \<Rightarrow> nat \<Rightarrow> u32" where
  "Uint32 b o' =
     ucast (b ! (o' + 3)) OR push_bit 8 (ucast (b ! (o' + 2))) OR
     push_bit 16 (ucast (b ! (o' + 1))) OR push_bit 24 (ucast (b ! o'))"

section \<open>The frame codec (homebrew.go)\<close>

type_synonym CallType = u8

definition GroupCall :: CallType where "GroupCall = 0"
definition UnitCall :: CallType where "UnitCall = 1"

type_synonym FrameType = u8

definition Voice :: FrameType where "Voice = 0"
definition VoiceSync :: FrameType where "VoiceSync = 1"
definition DataSync :: FrameType where "DataSync = 2"
definition UnusedFrameType :: FrameType where "UnusedFrameType = 3"

text \<open>The struct \<^verbatim>\<open>Frame\<close>. The arrays \<^verbatim>\<open>[4]byte\<close> and \<^verbatim>\<open>[33]byte\<close> are lists; their fixed
  lengths are the predicate \<open>Frame_arrays\<close>, which every Go value of the type satisfies.\<close>

record Frame =
  Signature :: "u8 list"
  Sequence :: u8
  SrcID :: u32
  DstID :: u32
  RepeaterID :: u32
  Flags :: u8
  StreamID :: u32
  DMR :: "u8 list"

definition Frame_arrays :: "Frame \<Rightarrow> bool" where
  "Frame_arrays f = (length (Signature f) = 4 \<and> length (DMR f) = 33)"

text \<open>\<^verbatim>\<open>func (f *Frame) Bytes() []byte\<close>, statement by statement.\<close>

definition Bytes :: "Frame \<Rightarrow> u8 list" where
  "Bytes f =
    (let b = replicate 53 (0 :: u8);
         b = copy_slice b 0 4 (Signature f);
         b = b[4 := Sequence f];
         b = b[5 := ucast (drop_bit 16 (SrcID f))];
         b = b[6 := ucast (drop_bit 8 (SrcID f))];
         b = b[7 := ucast (SrcID f)];
         b = b[8 := ucast (drop_bit 16 (DstID f))];
         b = b[9 := ucast (drop_bit 8 (DstID f))];
         b = b[10 := ucast (DstID f)];
         b = PutUint32 b 11 (RepeaterID f);
         b = b[15 := Flags f];
         b = PutUint32 b 16 (StreamID f);
         b = copy_slice b 21 53 (DMR f)
     in b)"

definition CallType :: "Frame \<Rightarrow> CallType" where
  "CallType f = drop_bit 1 (Flags f) AND 0x01"

definition DataType :: "Frame \<Rightarrow> u8" where
  "DataType f = drop_bit 4 (Flags f)"

definition FrameType :: "Frame \<Rightarrow> FrameType" where
  "FrameType f = drop_bit 2 (Flags f) AND 0x03"

definition Slot :: "Frame \<Rightarrow> int" where
  "Slot f = uint (Flags f AND 0x01) + 1"

datatype error =
    InvalidPacketLength
  | EMBLength nat
  | EMBChecksum
  | EMBPiNotZero
  | HexInvalidByte u8
  | HexErrLength

text \<open>\<^verbatim>\<open>func ParseFrame(data []byte) (*Frame, error)\<close>. The fresh \<^verbatim>\<open>Frame{}\<close> has zeroed arrays,
  into which \<^verbatim>\<open>copy\<close> writes.\<close>

definition ParseFrame :: "u8 list \<Rightarrow> error + Frame" where
  "ParseFrame data =
    (if length data \<noteq> 53 then Inl InvalidPacketLength
     else Inr \<lparr>
       Signature = copy_go (replicate 4 0) (take 4 data),
       Sequence = data ! 4,
       SrcID = push_bit 16 (ucast (data ! 5)) OR push_bit 8 (ucast (data ! 6)) OR ucast (data ! 7),
       DstID = push_bit 16 (ucast (data ! 8)) OR push_bit 8 (ucast (data ! 9)) OR ucast (data ! 10),
       RepeaterID = Uint32 data 11,
       Flags = data ! 15,
       StreamID = Uint32 data 16,
       DMR = copy_go (replicate 33 0) (drop 20 data) \<rparr>)"

text \<open>A sample frame: signature \<^verbatim>\<open>DMRD\<close>, IDs within their widths, flags \<open>0x13\<close>,
  payload bytes 1, 2, ..., 33.\<close>

definition sample_frame :: Frame where
  "sample_frame = \<lparr>
     Signature = [0x44, 0x4D, 0x52, 0x44], Sequence = 7,
     SrcID = 0x204001, DstID = 0x0000CC, RepeaterID = 0x00204F01,
     Flags = 0x13, StreamID = 0xDEADBEEF,
     DMR = map of_nat [1 ..< 34] \<rparr>"

section \<open>The link session (homebrew.go)\<close>

text \<open>\<^verbatim>\<open>hex.DecodeString\<close> of the Go standard library: two hexadecimal digits per byte; an
  invalid character is reported before an odd length.\<close>

definition fromHexChar :: "u8 \<Rightarrow> u8 option" where
  "fromHexChar c =
    (if 0x30 \<le> c \<and> c \<le> 0x39 then Some (c - 0x30)
     else if 0x61 \<le> c \<and> c \<le> 0x66 then Some (c - 0x61 + 10)
     else if 0x41 \<le> c \<and> c \<le> 0x46 then Some (c - 0x41 + 10)
     else None)"

fun hex_DecodeString :: "u8 list \<Rightarrow> error + u8 list" where
  "hex_DecodeString (p # q # rest) =
    (case fromHexChar p of
       None \<Rightarrow> Inl (HexInvalidByte p)
     | Some a \<Rightarrow>
        (case fromHexChar q of
           None \<Rightarrow> Inl (HexInvalidByte q)
         | Some b \<Rightarrow>
            (case hex_DecodeString rest of
               Inl e \<Rightarrow> Inl e
             | Inr bs \<Rightarrow> Inr ((push_bit 4 a OR b) # bs))))"
| "hex_DecodeString [p] =
    (case fromHexChar p of None \<Rightarrow> Inl (HexInvalidByte p) | Some a \<Rightarrow> Inl HexErrLength)"
| "hex_DecodeString [] = Inr []"

datatype authStatus = authNone | authBegin | authDone | authFail

text \<open>The package-level byte slices that homebrew.go uses and another file of the package
  declares. They are parameters of the model.\<close>

record package_vars =
  DMRData :: "u8 list"
  MasterNAK :: "u8 list"
  MasterACK :: "u8 list"
  RepeaterLogin :: "u8 list"
  RepeaterKey :: "u8 list"
  MasterPing :: "u8 list"

definition bytes_of :: "string \<Rightarrow> u8 list" where
  "bytes_of s = map (\<lambda>c. of_nat (of_char c)) s"

text \<open>The signatures of the Home Brew protocol, used where a concrete instance is evaluated.\<close>

definition homebrew_vars :: package_vars where
  "homebrew_vars = \<lparr>
     DMRData = bytes_of ''DMRD'', MasterNAK = bytes_of ''MSTNAK'', MasterACK = bytes_of ''MSTACK'',
     RepeaterLogin = bytes_of ''RPTL'', RepeaterKey = bytes_of ''RPTK'',
     MasterPing = bytes_of ''MSTPING'' \<rparr>"

text \<open>The fields of \<^verbatim>\<open>Link\<close> that the three loops read or write. \<open>stream_set\<close> is
  \<^verbatim>\<open>l.stream != nil\<close>. The last two fields are not in the struct: \<open>streamed\<close> lists the frames
  handed to the stream callback, \<open>wire\<close> the packets handed to \<^verbatim>\<open>Send\<close>.\<close>

record Link =
  stream_set :: bool
  authKey :: "u8 list"
  local_id :: "u8 list"
  master_status :: authStatus
  master_secret :: "u8 list"
  keepalive_outstanding :: u32
  keepalive_sent :: u64
  streamed :: "Frame list"
  wire :: "u8 list list"

text \<open>How one pass through a loop body ends: the loop goes on, or the function returns.\<close>

datatype 'a flow = Continue 'a | Return 'a

fun flow_val :: "'a flow \<Rightarrow> 'a" where
  "flow_val (Continue x) = x"
| "flow_val (Return x) = x"

text \<open>\<^verbatim>\<open>Link.Send\<close>: the socket decides whether the write succeeds (\<open>ok\<close>); the result is the
  link and whether an error came back.\<close>

definition Send :: "bool \<Rightarrow> Link \<Rightarrow> u8 list \<Rightarrow> Link \<times> bool" where
  "Send ok l data = (l\<lparr>wire := wire l @ [data]\<rparr>, \<not> ok)"

text \<open>One pass through the body of the loop of \<^verbatim>\<open>Link.parse\<close>, for the packet \<open>data\<close> taken
  from the queue. A \<^verbatim>\<open>break\<close> leaves the switch, so the loop goes on.\<close>

definition parse_packet :: "package_vars \<Rightarrow> Link \<Rightarrow> u8 list \<Rightarrow> Link flow" where
  "parse_packet pv l data =
    (let size = length data in
     if size < 4 then Continue l
     else case master_status l of
       authNone \<Rightarrow>
         if take 4 data = DMRData pv then Return l
         else if size < 14 then Return l
         else (case hex_DecodeString (take 8 (drop 6 data)) of
                 Inl err \<Rightarrow> Continue (l\<lparr>master_status := authFail\<rparr>)
               | Inr repeater \<Rightarrow>
                   if take 6 data = MasterNAK pv then Continue (l\<lparr>master_status := authFail\<rparr>)
                   else if take 6 data = MasterACK pv then
                     Continue (l\<lparr>master_secret := drop 14 data, master_status := authBegin\<rparr>)
                   else Continue (l\<lparr>master_status := authFail\<rparr>))
     | authBegin \<Rightarrow>
         if take 4 data = DMRData pv then Return l
         else if size < 14 then Continue (l\<lparr>master_status := authFail\<rparr>)
         else (case hex_DecodeString (take 8 (drop 6 data)) of
                 Inl err \<Rightarrow> Continue (l\<lparr>master_status := authFail\<rparr>)
               | Inr repeater \<Rightarrow>
                   if take 6 data = MasterNAK pv then Continue (l\<lparr>master_status := authFail\<rparr>)
                   else if take 6 data = MasterACK pv then Continue (l\<lparr>master_status := authDone\<rparr>)
                   else Continue (l\<lparr>master_status := authFail\<rparr>))
     | authDone \<Rightarrow>
         if take 4 data = DMRData pv then
           (if \<not> stream_set l then Return l
            else case ParseFrame data of
                   Inl err \<Rightarrow> Return l
                 | Inr frame \<Rightarrow> Continue (l\<lparr>streamed := streamed l @ [frame]\<rparr>))
         else Continue l
     | authFail \<Rightarrow> Continue l)"

text \<open>The loop of \<^verbatim>\<open>Link.parse\<close> over the packets that arrive on the queue.\<close>

fun parse :: "package_vars \<Rightarrow> Link \<Rightarrow> u8 list list \<Rightarrow> Link" where
  "parse pv l [] = l"
| "parse pv l (data # queue) =
    (case parse_packet pv l data of
       Continue l' \<Rightarrow> parse pv l' queue
     | Return l' \<Rightarrow> l')"

text \<open>One pass through the body of the loop of \<^verbatim>\<open>Link.keepAlive\<close>: the two atomic additions,
  then the ping.\<close>

definition keepAlive_iteration :: "package_vars \<Rightarrow> bool \<Rightarrow> Link \<Rightarrow> Link flow" where
  "keepAlive_iteration pv ok l =
    (let l = l\<lparr>keepalive_outstanding := keepalive_outstanding l + 1\<rparr>;
         l = l\<lparr>keepalive_sent := keepalive_sent l + 1\<rparr>;
         p = MasterPing pv @ local_id l;
         (l, err) = Send ok l p
     in if err then Return l else Continue l)"

text \<open>The loop of \<^verbatim>\<open>Link.keepAlive\<close>, for the outcomes of its successive sends.\<close>

fun keepAlive :: "package_vars \<Rightarrow> bool list \<Rightarrow> Link \<Rightarrow> Link" where
  "keepAlive pv [] l = l"
| "keepAlive pv (ok # oks) l =
    (case keepAlive_iteration pv ok l of
       Continue l' \<Rightarrow> keepAlive pv oks l'
     | Return l' \<Rightarrow> l')"

text \<open>Where the goroutine started by \<^verbatim>\<open>go l.login()\<close> stands: in the login loop with its
  local variable \<^verbatim>\<open>previous\<close>, in the keepalive loop it calls, or returned.\<close>

datatype login_pc = InLogin authStatus | InKeepAlive | LoginReturned

text \<open>One pass through the loop of \<^verbatim>\<open>Link.login\<close>. \<open>sha256_hex\<close> is the hexadecimal SHA-256
  digest and \<open>config\<close> the bytes of the repeater configuration, both from outside the core.
  The packet \<^verbatim>\<open>p\<close> is never nil, as it ends with the local ID; the error of its \<^verbatim>\<open>Send\<close> is
  dropped, and the pass that waits only sleeps.\<close>

definition login_iteration ::
  "package_vars \<Rightarrow> (u8 list \<Rightarrow> u8 list) \<Rightarrow> u8 list \<Rightarrow> bool \<Rightarrow> authStatus \<Rightarrow> Link \<Rightarrow> Link \<times> login_pc" where
  "login_iteration pv sha256_hex config ok previous l =
    (if master_status l = authFail then (l, LoginReturned)
     else if master_status l \<noteq> previous then
       (case master_status l of
          authNone \<Rightarrow>
            (fst (Send ok l (RepeaterLogin pv @ local_id l)), InLogin authNone)
        | authBegin \<Rightarrow>
            (fst (Send ok l (RepeaterKey pv @ local_id l @ sha256_hex (master_secret l @ authKey l))),
             InLogin authBegin)
        | authDone \<Rightarrow>
            (let (l, err) = Send ok l config
             in if err then (l, LoginReturned) else (l, InKeepAlive))
        | authFail \<Rightarrow> (l, LoginReturned))
     else (l, InLogin previous))"

text \<open>The session: the link, where the login goroutine stands, and whether the goroutine of
  \<^verbatim>\<open>Link.parse\<close> is still running. The goroutines interleave pass by pass.\<close>

type_synonym session = "Link \<times> login_pc \<times> bool"

text \<open>The link \<^verbatim>\<open>New\<close> returns has zero values but for the callbacks, the key and the local ID;
  \<^verbatim>\<open>Run\<close> starts both goroutines, and \<^verbatim>\<open>login\<close> starts with \<^verbatim>\<open>previous = authDone\<close>.\<close>

definition New :: "bool \<Rightarrow> u8 list \<Rightarrow> u8 list \<Rightarrow> Link" where
  "New sf key lid = \<lparr>
     stream_set = sf, authKey = key, local_id = lid,
     master_status = authNone, master_secret = [],
     keepalive_outstanding = 0, keepalive_sent = 0,
     streamed = [], wire = [] \<rparr>"

definition Run :: "Link \<Rightarrow> session" where
  "Run l = (l, InLogin authDone, True)"

inductive session_step ::
  "package_vars \<Rightarrow> (u8 list \<Rightarrow> u8 list) \<Rightarrow> u8 list \<Rightarrow> session \<Rightarrow> session \<Rightarrow> bool"
  for pv :: package_vars and sha256_hex :: "u8 list \<Rightarrow> u8 list" and config :: "u8 list"
where
  dispatch_continue:
    "parse_packet pv l data = Continue l' \<Longrightarrow>
     session_step pv sha256_hex config (l, pc, True) (l', pc, True)"
| dispatch_return:
    "parse_packet pv l data = Return l' \<Longrightarrow>
     session_step pv sha256_hex config (l, pc, True) (l', pc, False)"
| login_pass:
    "login_iteration pv sha256_hex config ok previous l = (l', pc') \<Longrightarrow>
     session_step pv sha256_hex config (l, InLogin previous, running) (l', pc', running)"
| ping_continue:
    "keepAlive_iteration pv ok l = Continue l' \<Longrightarrow>
     session_step pv sha256_hex config (l, InKeepAlive, running) (l', InKeepAlive, running)"
| ping_return:
    "keepAlive_iteration pv ok l = Return l' \<Longrightarrow>
     session_step pv sha256_hex config (l, InKeepAlive, running) (l', LoginReturned, running)"

inductive session_reachable ::
  "package_vars \<Rightarrow> (u8 list \<Rightarrow> u8 list) \<Rightarrow> u8 list \<Rightarrow> session \<Rightarrow> bool"
  for pv :: package_vars and sha256_hex :: "u8 list \<Rightarrow> u8 list" and config :: "u8 list"
where
  started: "session_reachable pv sha256_hex config (Run (New sf key lid))"
| stepped:
    "session_reachable pv sha256_hex config s \<Longrightarrow> session_step pv sha256_hex config s s' \<Longrightarrow>
     session_reachable pv sha256_hex config s'"

text \<open>A link as \<^verbatim>\<open>New\<close> returns it, with a stream callback, an empty key and the local ID
  \<^verbatim>\<open>00204f01\<close>.\<close>

definition sample_link :: Link where
  "sample_link = New True [] (bytes_of ''00204f01'')"








section \<open>Embedded signalling\<close>

text \<open>\<^verbatim>\<open>bit.Bits\<close> is a slice of \<^verbatim>\<open>bit.Bit\<close>, a byte that holds 0 or 1.\<close>

type_synonym Bit = u8
type_synonym Bits = "Bit list"


text \<open>Modelled from the spec: the constant \<^verbatim>\<open>EMBBits\<close>, declared in another file of the
  package; the spec gives the expected width of the input as 16 bits.\<close>

definition EMBBits :: nat where
  "EMBBits = 16"

record EMB =
  ColorCode :: u8
  LCSS :: u8

text \<open>\<^verbatim>\<open>func ParseEMB(bits bit.Bits) (*EMB, error)\<close>. \<open>Check\<close> is \<^verbatim>\<open>quadres_16_7.Check\<close>, the
  parity check of another package, a parameter here.\<close>

definition ParseEMB :: "(Bits \<Rightarrow> bool) \<Rightarrow> Bits \<Rightarrow> error + EMB" where
  "ParseEMB Check bits =
    (if length bits \<noteq> EMBBits then Inl (EMBLength (length bits))
     else if \<not> Check bits then Inl EMBChecksum
     else if bits ! 4 \<noteq> 0 then Inl EMBPiNotZero
     else Inr \<lparr>
       ColorCode = push_bit 3 (bits ! 0) OR push_bit 2 (bits ! 1) OR push_bit 1 (bits ! 2) OR bits ! 3,
       LCSS = push_bit 1 (bits ! 5) OR bits ! 6 \<rparr>)"

section \<open>CRC-9 (crc.go)\<close>

text \<open>The first loop of \<^verbatim>\<open>crc9\<close>: \<^verbatim>\<open>for i := 0; i < 8-bits; i++ { v >>= 1 }\<close>.\<close>

function crc9_mask :: "int \<Rightarrow> int \<Rightarrow> u8 \<Rightarrow> u8" where
  "crc9_mask i bits v = (if i < 8 - bits then crc9_mask (i + 1) bits (drop_bit 1 v) else v)"
  by pat_completeness auto
termination
  by (relation "measure (\<lambda>(i, bits, v). nat (8 - bits - i))") auto

text \<open>The statements of the second loop's body that change the register, for the truth value
  \<open>inject\<close> of \<^verbatim>\<open>b&v > 0\<close>.\<close>

definition crc9_shift :: "u16 \<Rightarrow> bool \<Rightarrow> u16" where
  "crc9_shift crc inject =
    (let xor = (crc AND 0x0100 > 0);
         crc = push_bit 1 crc;
         crc = crc AND 0x01ff;
         crc = (if inject then crc + 1 else crc);
         crc = (if xor then crc XOR 0x0059 else crc)
     in crc)"

text \<open>The second loop: \<^verbatim>\<open>for i := 0; i < 8; i++ { ...; v >>= 1 }\<close>.\<close>

function crc9_loop :: "int \<Rightarrow> u16 \<Rightarrow> u8 \<Rightarrow> u8 \<Rightarrow> u16" where
  "crc9_loop i crc b v =
    (if i < 8 then crc9_loop (i + 1) (crc9_shift crc (b AND v > 0)) b (drop_bit 1 v) else crc)"
  by pat_completeness auto
termination
  by (relation "measure (\<lambda>(i, crc, b, v). nat (8 - i))") auto

text \<open>\<^verbatim>\<open>func crc9(crc *uint16, b uint8, bits int)\<close>; the result is the new \<^verbatim>\<open>*crc\<close>.\<close>

definition crc9 :: "u16 \<Rightarrow> u8 \<Rightarrow> int \<Rightarrow> u16" where
  "crc9 crc b bits = crc9_loop 0 crc b (crc9_mask 0 bits 0x80)"

text \<open>\<^verbatim>\<open>func crc9end(crc *uint16, bits int)\<close>.\<close>

function crc9end_loop :: "int \<Rightarrow> int \<Rightarrow> u16 \<Rightarrow> u16" where
  "crc9end_loop i bits crc = (if i < bits then crc9end_loop (i + 1) bits (crc9_shift crc False) else crc)"
  by pat_completeness auto
termination
  by (relation "measure (\<lambda>(i, bits, crc). nat (bits - i))") auto

definition crc9end :: "u16 \<Rightarrow> int \<Rightarrow> u16" where
  "crc9end crc bits = crc9end_loop 0 bits crc"

text \<open>The update as the specification words it: the top \<open>bits\<close> bits of \<open>b\<close>, most significant
  first, are shifted in, one shift per bit, and nothing else is shifted.\<close>

definition top_bits :: "u8 \<Rightarrow> nat \<Rightarrow> bool list" where
  "top_bits b n = map (\<lambda>k. bit b (7 - k)) [0 ..< n]"

definition crc9_top_bits :: "u16 \<Rightarrow> u8 \<Rightarrow> nat \<Rightarrow> u16" where
  "crc9_top_bits crc b n = foldl crc9_shift crc (top_bits b n)"

text \<open>What the loops feed: the low \<open>n\<close> bits of \<open>b\<close>, most significant first, then zeros up to
  eight shifts.\<close>

definition low_bits_padded :: "u8 \<Rightarrow> nat \<Rightarrow> bool list" where
  "low_bits_padded b n = map (\<lambda>k. bit b (n - 1 - k)) [0 ..< n] @ replicate (8 - n) False"

section \<open>Properties of the frame codec\<close>

lemma copy_go_length: "length (copy_go dst src) = length dst"
  by (simp add: copy_go_def)

lemma copy_slice_length:
  "lo \<le> hi \<Longrightarrow> hi \<le> length b \<Longrightarrow> length (copy_slice b lo hi src) = length b"
  by (simp add: copy_slice_def copy_go_length)

lemma PutUint32_length: "length (PutUint32 b k v) = length b"
  by (simp add: PutUint32_def)

lemma Bytes_length: "length (Bytes f) = 53"
  by (simp add: Bytes_def Let_def copy_slice_length PutUint32_length)

lemma replicate_53:
  "replicate 53 (x::'a) = [x,x,x,x,x,x,x,x,x,x,x,x,x,x,x,x,x,x,x,x] @ replicate 33 x"
  by (simp add: eval_nat_numeral)

lemma length_4_cases: "length xs = 4 \<Longrightarrow> \<exists>a b c d. xs = [a, b, c, d]"
  by (auto simp: length_Suc_conv eval_nat_numeral)

lemma Bytes_layout:
  assumes "Frame_arrays f"
  shows "Bytes f = Signature f @
     [Sequence f,
      ucast (drop_bit 16 (SrcID f)), ucast (drop_bit 8 (SrcID f)), ucast (SrcID f),
      ucast (drop_bit 16 (DstID f)), ucast (drop_bit 8 (DstID f)), ucast (DstID f),
      ucast (drop_bit 24 (RepeaterID f)), ucast (drop_bit 16 (RepeaterID f)),
      ucast (drop_bit 8 (RepeaterID f)), ucast (RepeaterID f),
      Flags f,
      ucast (drop_bit 24 (StreamID f)), ucast (drop_bit 16 (StreamID f)),
      ucast (drop_bit 8 (StreamID f)), ucast (StreamID f),
      0] @ take 32 (DMR f)"
proof -
  from assms obtain a b c d where s: "Signature f = [a, b, c, d]"
    using length_4_cases[of "Signature f"] unfolding Frame_arrays_def by blast
  from assms have l: "length (DMR f) = 33" by (simp add: Frame_arrays_def)
  show ?thesis
    unfolding Bytes_def Let_def replicate_53
    by (simp add: s l copy_slice_def copy_go_def PutUint32_def)
qed

lemma bit_below_24: "(x::u32) < 2 ^ 24 \<Longrightarrow> bit x n \<Longrightarrow> n < 24"
proof -
  assume a: "x < 2 ^ 24" and b: "bit x n"
  have "take_bit 24 x = x" using less_mask_eq[OF a] by (simp add: take_bit_eq_mask)
  then have "bit (take_bit 24 x) n" using b by simp
  then show ?thesis by (simp add: bit_take_bit_iff)
qed

lemma id24_bytes:
  assumes "x < 2 ^ 24"
  shows "push_bit 16 (ucast (ucast (drop_bit 16 x) :: u8)) OR
         push_bit 8 (ucast (ucast (drop_bit 8 x) :: u8)) OR ucast (ucast x :: u8) = (x :: u32)"
proof (rule bit_word_eqI)
  fix n assume "n < LENGTH(32)"
  then have n: "n < 32" by simp
  have *: "bit x n \<Longrightarrow> n < 24" using bit_below_24[OF assms] .
  consider "n < 8" | "8 \<le> n" "n < 16" | "16 \<le> n" "n < 24" | "24 \<le> n" by linarith
  then show "bit (push_bit 16 (ucast (ucast (drop_bit 16 x) :: u8)) OR
       push_bit 8 (ucast (ucast (drop_bit 8 x) :: u8)) OR ucast (ucast x :: u8) :: u32) n = bit x n"
    using * n by cases (auto simp: bit_simps)
qed

lemma id32_bytes:
  "ucast (ucast x :: u8) OR push_bit 8 (ucast (ucast (drop_bit 8 x) :: u8)) OR
   push_bit 16 (ucast (ucast (drop_bit 16 x) :: u8)) OR
   push_bit 24 (ucast (ucast (drop_bit 24 x) :: u8)) = (x :: u32)"
proof (rule bit_word_eqI)
  fix n assume "n < LENGTH(32)"
  then have n: "n < 32" by simp
  consider "n < 8" | "8 \<le> n" "n < 16" | "16 \<le> n" "n < 24" | "24 \<le> n" by linarith
  then show "bit (ucast (ucast x :: u8) OR push_bit 8 (ucast (ucast (drop_bit 8 x) :: u8)) OR
       push_bit 16 (ucast (ucast (drop_bit 16 x) :: u8)) OR
       push_bit 24 (ucast (ucast (drop_bit 24 x) :: u8)) :: u32) n = bit x n"
    using n by cases (auto simp: bit_simps)
qed

lemma ParseFrame_Bytes:
  assumes "Frame_arrays f" and "SrcID f < 2 ^ 24" and "DstID f < 2 ^ 24"
  shows "ParseFrame (Bytes f) = Inr (f\<lparr>DMR := 0 # take 32 (DMR f)\<rparr>)"
proof -
  from assms obtain a b c d where s: "Signature f = [a, b, c, d]"
    using length_4_cases[of "Signature f"] unfolding Frame_arrays_def by blast
  from assms have l: "length (DMR f) = 33" by (simp add: Frame_arrays_def)
  show ?thesis
    unfolding ParseFrame_def Bytes_layout[OF assms(1)]
    using id24_bytes[OF assms(2)] id24_bytes[OF assms(3)]
    by (simp add: s l copy_go_def Uint32_def id32_bytes)
qed

text \<open>C1. The claim: \<^verbatim>\<open>Frame.Bytes\<close> yields 53 bytes with the 33-byte payload at offsets 20 to 52.
  The code yields 53 bytes and places the header fields as claimed, but it copies the payload
  to \<^verbatim>\<open>b[21:]\<close>: offset 20 stays zero, offsets 21 to 52 hold the first 32 payload bytes, and
  the last payload byte is dropped (lemma \<open>Bytes_layout\<close> for every frame). Evaluated here
  at the sample frame, whose payload is 1, 2, ..., 33.\<close>

theorem Bytes_payload_misplaced:
  "Frame_arrays sample_frame \<and> length (Bytes sample_frame) = 53 \<and>
   drop 20 (Bytes sample_frame) = 0 # take 32 (DMR sample_frame) \<and>
   drop 20 (Bytes sample_frame) \<noteq> DMR sample_frame"
  by code_simp

text \<open>C2. The claim: \<^verbatim>\<open>ParseFrame (f.Bytes())\<close> gives back \<open>f\<close>. Because of the payload
  offset of \<^verbatim>\<open>Bytes\<close>, the decoded payload is a zero byte followed by the first 32 bytes of
  the original (lemma \<open>ParseFrame_Bytes\<close> for every frame whose source and destination IDs
  fit 24 bits); the other fields come back unchanged. Evaluated here at the sample frame.\<close>

theorem ParseFrame_Bytes_loses_payload:
  "SrcID sample_frame < 2 ^ 24 \<and> DstID sample_frame < 2 ^ 24 \<and>
   ParseFrame (Bytes sample_frame) = Inr (sample_frame\<lparr>DMR := 0 # take 32 (DMR sample_frame)\<rparr>) \<and>
   ParseFrame (Bytes sample_frame) \<noteq> Inr sample_frame"
  by code_simp

text \<open>C7. \<^verbatim>\<open>ParseFrame\<close> returns the length error for every input whose length is not 53, and
  a frame for every input of 53 bytes.\<close>

theorem ParseFrame_length:
  "(length data \<noteq> 53 \<longrightarrow> ParseFrame data = Inl InvalidPacketLength) \<and>
   (length data = 53 \<longrightarrow> (\<exists>f. ParseFrame data = Inr f))"
  by (simp add: ParseFrame_def)

theorem ParseFrame_length_witness:
  "ParseFrame [1, 2, 3] = Inl InvalidPacketLength \<and>
   ParseFrame (replicate 54 0) = Inl InvalidPacketLength \<and>
   (\<exists>f. ParseFrame (replicate 53 0) = Inr f)"
  using ParseFrame_length [of "[1, 2, 3]"] ParseFrame_length [of "replicate 54 0"]
    ParseFrame_length [of "replicate 53 0"]
  by simp

lemma and_3_take_bit: "(w :: u8) AND 3 = take_bit 2 w"
proof -
  have "(3 :: u8) = mask 2" by (simp add: mask_eq_exp_minus_1)
  then show ?thesis by (simp add: take_bit_eq_mask)
qed

lemma CallType_bit: "CallType f = (if bit (Flags f) 1 then UnitCall else GroupCall)"
  unfolding CallType_def UnitCall_def GroupCall_def
  by (simp add: and_one_eq mod2_eq_if bit_iff_odd_drop_bit)

lemma FrameType_bits: "unat (FrameType f) = unat (Flags f) div 4 mod 4"
proof -
  have "unat (FrameType f) = take_bit 2 (drop_bit 2 (unat (Flags f)))"
    unfolding FrameType_def and_3_take_bit by (simp only: unsigned_take_bit_eq unat_drop_bit_eq)
  also have "\<dots> = unat (Flags f) div 4 mod 4"
    by (simp add: take_bit_eq_mod drop_bit_eq_div)
  finally show ?thesis .
qed

lemma DataType_bits: "unat (DataType f) = unat (Flags f) div 16"
  unfolding DataType_def by (simp add: unat_drop_bit_eq) (simp add: drop_bit_eq_div)

lemma Slot_bit: "Slot f = (if bit (Flags f) 0 then 2 else 1)"
  unfolding Slot_def
  by (simp add: and_one_eq bit_0 uint_mod_distrib mod2_eq_if)

text \<open>C9. For every flags byte: the call type is bit 1 (0 the group call, 1 the unit call), the
  frame type is bits 2 and 3, the data type is bits 4 to 7, and the slot is bit 0 plus 1, so 1
  or 2. At \<open>0b00010011\<close> the slot is 2, the call a unit call, the frame type voice and the data
  type 1; the values at \<open>0x00\<close> and \<open>0xFF\<close> follow.\<close>

theorem flag_accessors:
  "CallType f = (if bit (Flags f) 1 then UnitCall else GroupCall) \<and>
   unat (FrameType f) = unat (Flags f) div 4 mod 4 \<and>
   unat (DataType f) = unat (Flags f) div 16 \<and>
   Slot f = (if bit (Flags f) 0 then 2 else 1) \<and>
   (Slot f = 1 \<or> Slot f = 2) \<and>
   Slot (f\<lparr>Flags := 0x13\<rparr>) = 2 \<and> CallType (f\<lparr>Flags := 0x13\<rparr>) = UnitCall \<and>
   FrameType (f\<lparr>Flags := 0x13\<rparr>) = Voice \<and> DataType (f\<lparr>Flags := 0x13\<rparr>) = 1 \<and>
   Slot (f\<lparr>Flags := 0x00\<rparr>) = 1 \<and> CallType (f\<lparr>Flags := 0x00\<rparr>) = GroupCall \<and>
   FrameType (f\<lparr>Flags := 0x00\<rparr>) = Voice \<and> DataType (f\<lparr>Flags := 0x00\<rparr>) = 0 \<and>
   Slot (f\<lparr>Flags := 0xFF\<rparr>) = 2 \<and> CallType (f\<lparr>Flags := 0xFF\<rparr>) = UnitCall \<and>
   FrameType (f\<lparr>Flags := 0xFF\<rparr>) = UnusedFrameType \<and> DataType (f\<lparr>Flags := 0xFF\<rparr>) = 15"
proof -
  have general:
    "CallType f = (if bit (Flags f) 1 then UnitCall else GroupCall)"
    "unat (FrameType f) = unat (Flags f) div 4 mod 4"
    "unat (DataType f) = unat (Flags f) div 16"
    "Slot f = (if bit (Flags f) 0 then 2 else 1)"
    by (rule CallType_bit FrameType_bits DataType_bits Slot_bit)+
  have slot: "Slot f = 1 \<or> Slot f = 2"
    by (simp add: Slot_bit)
  have at_13:
    "Slot (f\<lparr>Flags := 0x13\<rparr>) = 2 \<and> CallType (f\<lparr>Flags := 0x13\<rparr>) = UnitCall \<and>
     FrameType (f\<lparr>Flags := 0x13\<rparr>) = Voice \<and> DataType (f\<lparr>Flags := 0x13\<rparr>) = 1"
    by (simp add: Slot_def CallType_def UnitCall_def FrameType_def Voice_def DataType_def)
  have at_00:
    "Slot (f\<lparr>Flags := 0x00\<rparr>) = 1 \<and> CallType (f\<lparr>Flags := 0x00\<rparr>) = GroupCall \<and>
     FrameType (f\<lparr>Flags := 0x00\<rparr>) = Voice \<and> DataType (f\<lparr>Flags := 0x00\<rparr>) = 0"
    by (simp add: Slot_def CallType_def GroupCall_def FrameType_def Voice_def DataType_def)
  have at_FF:
    "Slot (f\<lparr>Flags := 0xFF\<rparr>) = 2 \<and> CallType (f\<lparr>Flags := 0xFF\<rparr>) = UnitCall \<and>
     FrameType (f\<lparr>Flags := 0xFF\<rparr>) = UnusedFrameType \<and> DataType (f\<lparr>Flags := 0xFF\<rparr>) = 15"
    by (simp add: Slot_def CallType_def UnitCall_def FrameType_def UnusedFrameType_def DataType_def)
  from general slot at_13 at_00 at_FF show ?thesis by simp
qed

section \<open>Properties of the embedded signalling parser\<close>

text \<open>C3. \<^verbatim>\<open>ParseEMB\<close> returns a value or an error for every input. It returns the length error
  when the input is not 16 bits long, the checksum error when the parity check rejects it, and
  the error of the reserved bit when bit 4 is not zero; it returns an error in these three cases
  only, so a returned value comes from an input of 16 bits that passed the check and has bit
  4 zero.\<close>

theorem ParseEMB_validates:
  "(length bits \<noteq> 16 \<longrightarrow> ParseEMB Check bits = Inl (EMBLength (length bits))) \<and>
   (length bits = 16 \<and> \<not> Check bits \<longrightarrow> ParseEMB Check bits = Inl EMBChecksum) \<and>
   (length bits = 16 \<and> Check bits \<and> bits ! 4 \<noteq> 0 \<longrightarrow> ParseEMB Check bits = Inl EMBPiNotZero) \<and>
   ((\<exists>e. ParseEMB Check bits = Inl e) \<longleftrightarrow> (length bits \<noteq> 16 \<or> \<not> Check bits \<or> bits ! 4 \<noteq> 0)) \<and>
   (\<forall>emb. ParseEMB Check bits = Inr emb \<longrightarrow> length bits = 16 \<and> Check bits \<and> bits ! 4 = 0)"
  by (simp add: ParseEMB_def EMBBits_def)

theorem ParseEMB_validates_witness:
  "ParseEMB (\<lambda>bits. True) [1, 0, 1] = Inl (EMBLength 3) \<and>
   ParseEMB (\<lambda>bits. False) [0, 0, 1, 1, 0, 0, 1, 0, 0, 0, 0, 0, 0, 0, 0, 0] = Inl EMBChecksum \<and>
   ParseEMB (\<lambda>bits. True) [0, 0, 1, 1, 1, 0, 1, 0, 0, 0, 0, 0, 0, 0, 0, 0] = Inl EMBPiNotZero \<and>
   (\<exists>emb. ParseEMB (\<lambda>bits. True) [0, 0, 1, 1, 0, 0, 1, 0, 0, 0, 0, 0, 0, 0, 0, 0] = Inr emb)"
  using ParseEMB_validates [of "[1, 0, 1]" "\<lambda>bits. True"]
    ParseEMB_validates [of "[0, 0, 1, 1, 0, 0, 1, 0, 0, 0, 0, 0, 0, 0, 0, 0]" "\<lambda>bits. False"]
    ParseEMB_validates [of "[0, 0, 1, 1, 1, 0, 1, 0, 0, 0, 0, 0, 0, 0, 0, 0]" "\<lambda>bits. True"]
    ParseEMB_validates [of "[0, 0, 1, 1, 0, 0, 1, 0, 0, 0, 0, 0, 0, 0, 0, 0]" "\<lambda>bits. True"]
  by (simp add: ParseEMB_def EMBBits_def)






section \<open>Properties of the link session\<close>

lemma parse_packet_short_authNone:
  assumes "master_status l = authNone" and "4 \<le> length data" and "length data < 14"
  shows "parse_packet pv l data = Return l"
  using assms by (simp add: parse_packet_def Let_def)

lemma parse_packet_short_authBegin:
  assumes "master_status l = authBegin" and "4 \<le> length data" and "length data < 14"
    and "take 4 data \<noteq> DMRData pv"
  shows "parse_packet pv l data = Continue (l\<lparr>master_status := authFail\<rparr>)"
  using assms by (simp add: parse_packet_def Let_def)

text \<open>C5. The claim: in the state \<^verbatim>\<open>authNone\<close> a login reply of 4 to 13 bytes moves the session
  to \<^verbatim>\<open>authFail\<close>. The code returns from \<^verbatim>\<open>Link.parse\<close> there and leaves the status as it
  is (lemma \<open>parse_packet_short_authNone\<close> for every such reply), so no later packet changes
  it either; in the state \<^verbatim>\<open>authBegin\<close> the same reply does set \<^verbatim>\<open>authFail\<close>. Evaluated here
  at the 10-byte reply \<^verbatim>\<open>MSTNAK0000\<close>.\<close>

theorem short_login_reply_not_failed:
  "length (bytes_of ''MSTNAK0000'') = 10 \<and>
   master_status sample_link = authNone \<and>
   parse_packet homebrew_vars sample_link (bytes_of ''MSTNAK0000'') =
     Return sample_link \<and>
   master_status (parse homebrew_vars sample_link
     (bytes_of ''MSTNAK0000'' # queue)) = authNone \<and>
   parse_packet homebrew_vars (sample_link\<lparr>master_status := authBegin\<rparr>)
     (bytes_of ''MSTNAK0000'') =
     Continue (sample_link\<lparr>master_status := authFail\<rparr>)"
proof -
  have len: "length (bytes_of ''MSTNAK0000'') = 10" by (simp add: bytes_of_def)
  have st: "master_status sample_link = authNone" by (simp add: sample_link_def New_def)
  have ret: "parse_packet homebrew_vars sample_link (bytes_of ''MSTNAK0000'') =
     Return sample_link"
    by (rule parse_packet_short_authNone) (simp_all add: len st)
  have sig: "take 4 (bytes_of ''MSTNAK0000'') \<noteq> DMRData homebrew_vars"
    by (simp add: bytes_of_def homebrew_vars_def)
  have sib: "parse_packet homebrew_vars (sample_link\<lparr>master_status := authBegin\<rparr>)
     (bytes_of ''MSTNAK0000'') =
     Continue (sample_link\<lparr>master_status := authBegin\<rparr>\<lparr>master_status := authFail\<rparr>)"
    by (rule parse_packet_short_authBegin) (simp_all add: len sig)
  from len st ret sib show ?thesis by (simp add: st)
qed

lemma take_take_4_6: "take 4 (take 6 xs) = take 4 xs"
  by simp

text \<open>C4, amended. With the data signature no prefix of the ACK or NAK signature and these two
  different, in the state \<^verbatim>\<open>authNone\<close> and for a reply of at least 14 bytes: a reply whose
  first 6 bytes are the NAK signature sets \<^verbatim>\<open>authFail\<close>; one whose first 6 bytes are the ACK
  signature and whose bytes 6 to 13 decode as hexadecimal sets \<^verbatim>\<open>authBegin\<close> and stores the
  bytes from offset 14 on as the secret; any other reply that does not begin with the 4-byte
  data signature sets \<^verbatim>\<open>authFail\<close>. A reply that begins with the data signature leaves the
  link as it is.\<close>

theorem login_reply_transitions:
  assumes "take 4 (MasterNAK pv) \<noteq> DMRData pv" and "take 4 (MasterACK pv) \<noteq> DMRData pv"
    and "MasterACK pv \<noteq> MasterNAK pv"
    and "master_status l = authNone" and "14 \<le> length data"
  shows
   "(take 6 data = MasterNAK pv \<longrightarrow>
       parse_packet pv l data = Continue (l\<lparr>master_status := authFail\<rparr>)) \<and>
    (take 6 data = MasterACK pv \<and> (\<exists>r. hex_DecodeString (take 8 (drop 6 data)) = Inr r) \<longrightarrow>
       parse_packet pv l data =
         Continue (l\<lparr>master_secret := drop 14 data, master_status := authBegin\<rparr>)) \<and>
    (take 4 data \<noteq> DMRData pv \<and> take 6 data \<noteq> MasterNAK pv \<and>
     \<not> (take 6 data = MasterACK pv \<and> (\<exists>r. hex_DecodeString (take 8 (drop 6 data)) = Inr r)) \<longrightarrow>
       parse_packet pv l data = Continue (l\<lparr>master_status := authFail\<rparr>)) \<and>
    (take 4 data = DMRData pv \<longrightarrow>
       parse_packet pv l data = Return l \<and> master_status l \<noteq> authFail)"
proof -
  have size: "\<not> length data < 4" "\<not> length data < 14" using assms(5) by simp_all
  have nak: "take 6 data = MasterNAK pv \<Longrightarrow> take 4 data \<noteq> DMRData pv"
    using assms(1) take_take_4_6[of data] by metis
  have ack: "take 6 data = MasterACK pv \<Longrightarrow> take 4 data \<noteq> DMRData pv"
    using assms(2) take_take_4_6[of data] by metis
  show ?thesis
    using nak ack assms(3,4) size
    by (auto simp: parse_packet_def Let_def split: sum.splits)
qed

text \<open>C4 as stated fails: a reply of 22 bytes that begins with the data signature \<^verbatim>\<open>DMRD\<close>,
  is neither ACK nor NAK and carries a hexadecimal repeater ID does not move the session to
  \<^verbatim>\<open>authFail\<close>; \<^verbatim>\<open>Link.parse\<close> returns and the status stays \<^verbatim>\<open>authNone\<close>.\<close>

theorem data_frame_reply_not_failed:
  "14 \<le> length (bytes_of ''DMRD0000204f01deadbeef'') \<and>
   master_status sample_link = authNone \<and>
   take 6 (bytes_of ''DMRD0000204f01deadbeef'') \<noteq> MasterNAK homebrew_vars \<and>
   take 6 (bytes_of ''DMRD0000204f01deadbeef'') \<noteq> MasterACK homebrew_vars \<and>
   hex_DecodeString (take 8 (drop 6 (bytes_of ''DMRD0000204f01deadbeef''))) = Inr [0x00, 0x20, 0x4f, 0x01] \<and>
   parse_packet homebrew_vars sample_link (bytes_of ''DMRD0000204f01deadbeef'') = Return sample_link \<and>
   master_status (flow_val (parse_packet homebrew_vars sample_link (bytes_of ''DMRD0000204f01deadbeef''))) \<noteq> authFail"
  by code_simp

theorem login_reply_transitions_witness:
  "parse_packet homebrew_vars sample_link (bytes_of ''MSTNAK00204f01'') =
     Continue (sample_link\<lparr>master_status := authFail\<rparr>) \<and>
   parse_packet homebrew_vars sample_link (bytes_of ''MSTACK00204f01deadbeef'') =
     Continue (sample_link\<lparr>master_secret := bytes_of ''deadbeef'', master_status := authBegin\<rparr>) \<and>
   parse_packet homebrew_vars sample_link (bytes_of ''RPTPONG00204f01'') =
     Continue (sample_link\<lparr>master_status := authFail\<rparr>) \<and>
   parse_packet homebrew_vars sample_link (bytes_of ''MSTACK00204fzz'') =
     Continue (sample_link\<lparr>master_status := authFail\<rparr>) \<and>
   parse_packet homebrew_vars sample_link (bytes_of ''DMRD0000204f01deadbeef'') = Return sample_link"
proof -
  have h1: "take 4 (MasterNAK homebrew_vars) \<noteq> DMRData homebrew_vars"
    and h2: "take 4 (MasterACK homebrew_vars) \<noteq> DMRData homebrew_vars"
    and h3: "MasterACK homebrew_vars \<noteq> MasterNAK homebrew_vars"
    by (simp_all add: homebrew_vars_def bytes_of_def)
  have h4: "master_status sample_link = authNone"
    by (simp add: sample_link_def New_def)
  note T = login_reply_transitions [OF h1 h2 h3 h4]
  have nak: "14 \<le> length (bytes_of ''MSTNAK00204f01'')"
    "take 6 (bytes_of ''MSTNAK00204f01'') = MasterNAK homebrew_vars"
    by (simp_all add: homebrew_vars_def bytes_of_def)
  have ack: "14 \<le> length (bytes_of ''MSTACK00204f01deadbeef'')"
    "take 6 (bytes_of ''MSTACK00204f01deadbeef'') = MasterACK homebrew_vars"
    "\<exists>r. hex_DecodeString (take 8 (drop 6 (bytes_of ''MSTACK00204f01deadbeef''))) = Inr r"
    "drop 14 (bytes_of ''MSTACK00204f01deadbeef'') = bytes_of ''deadbeef''"
    by (simp_all add: homebrew_vars_def bytes_of_def fromHexChar_def)
  have other: "14 \<le> length (bytes_of ''RPTPONG00204f01'')"
    "take 4 (bytes_of ''RPTPONG00204f01'') \<noteq> DMRData homebrew_vars"
    "take 6 (bytes_of ''RPTPONG00204f01'') \<noteq> MasterNAK homebrew_vars"
    "take 6 (bytes_of ''RPTPONG00204f01'') \<noteq> MasterACK homebrew_vars"
    by (simp_all add: homebrew_vars_def bytes_of_def)
  have badhex: "14 \<le> length (bytes_of ''MSTACK00204fzz'')"
    "take 4 (bytes_of ''MSTACK00204fzz'') \<noteq> DMRData homebrew_vars"
    "take 6 (bytes_of ''MSTACK00204fzz'') \<noteq> MasterNAK homebrew_vars"
    "\<not> (\<exists>r. hex_DecodeString (take 8 (drop 6 (bytes_of ''MSTACK00204fzz''))) = Inr r)"
    by (simp_all add: homebrew_vars_def bytes_of_def fromHexChar_def)
  have dmrd: "14 \<le> length (bytes_of ''DMRD0000204f01deadbeef'')"
    "take 4 (bytes_of ''DMRD0000204f01deadbeef'') = DMRData homebrew_vars"
    by (simp_all add: homebrew_vars_def bytes_of_def)
  from T [OF nak(1)] nak(2)
  have 1: "parse_packet homebrew_vars sample_link (bytes_of ''MSTNAK00204f01'') =
     Continue (sample_link\<lparr>master_status := authFail\<rparr>)" by blast
  from T [OF ack(1)] ack(2,3)
  have 2: "parse_packet homebrew_vars sample_link (bytes_of ''MSTACK00204f01deadbeef'') =
     Continue (sample_link\<lparr>master_secret := bytes_of ''deadbeef'', master_status := authBegin\<rparr>)"
    unfolding ack(4) [symmetric] by blast
  from T [OF other(1)] other(2,3,4)
  have 3: "parse_packet homebrew_vars sample_link (bytes_of ''RPTPONG00204f01'') =
     Continue (sample_link\<lparr>master_status := authFail\<rparr>)" by blast
  from T [OF badhex(1)] badhex(2,3,4)
  have 4: "parse_packet homebrew_vars sample_link (bytes_of ''MSTACK00204fzz'') =
     Continue (sample_link\<lparr>master_status := authFail\<rparr>)" by blast
  from T [OF dmrd(1)] dmrd(2)
  have 5: "parse_packet homebrew_vars sample_link (bytes_of ''DMRD0000204f01deadbeef'') = Return sample_link"
    by blast
  from 1 2 3 4 5 show ?thesis by blast
qed












section \<open>Properties of the CRC-9 update\<close>

lemma and_pow2_pos: "(0 < (b :: u8) AND 2 ^ k) = bit b k"
  by (simp add: word_greater_zero_iff bit_iff_and_push_bit_not_eq_0 push_bit_eq_mult)

lemma and_bit_numerals:
  "(0 < (b :: u8) AND 128) = bit b 7" "(0 < b AND 64) = bit b 6" "(0 < b AND 32) = bit b 5"
  "(0 < b AND 16) = bit b 4" "(0 < b AND 8) = bit b 3" "(0 < b AND 4) = bit b 2"
  "(0 < b AND 2) = bit b (Suc 0)" "(0 < b AND 1) = bit b 0"
  using and_pow2_pos[of b 7] and_pow2_pos[of b 6] and_pow2_pos[of b 5] and_pow2_pos[of b 4]
    and_pow2_pos[of b 3] and_pow2_pos[of b 2] and_pow2_pos[of b 1] and_pow2_pos[of b 0]
  by simp_all

lemma crc9_mask_values:
  "crc9_mask 0 1 0x80 = 1" "crc9_mask 0 2 0x80 = 2" "crc9_mask 0 3 0x80 = 4"
  "crc9_mask 0 4 0x80 = 8" "crc9_mask 0 5 0x80 = 16" "crc9_mask 0 6 0x80 = 32"
  "crc9_mask 0 7 0x80 = 64" "crc9_mask 0 8 0x80 = 128"
  by simp_all

lemma low_bits_padded_values:
  "low_bits_padded b 1 = [bit b 0, False, False, False, False, False, False, False]"
  "low_bits_padded b 2 = [bit b (Suc 0), bit b 0, False, False, False, False, False, False]"
  "low_bits_padded b 3 = [bit b 2, bit b (Suc 0), bit b 0, False, False, False, False, False]"
  "low_bits_padded b 4 = [bit b 3, bit b 2, bit b (Suc 0), bit b 0, False, False, False, False]"
  "low_bits_padded b 5 = [bit b 4, bit b 3, bit b 2, bit b (Suc 0), bit b 0, False, False, False]"
  "low_bits_padded b 6 = [bit b 5, bit b 4, bit b 3, bit b 2, bit b (Suc 0), bit b 0, False, False]"
  "low_bits_padded b 7 = [bit b 6, bit b 5, bit b 4, bit b 3, bit b 2, bit b (Suc 0), bit b 0, False]"
  "low_bits_padded b 8 = [bit b 7, bit b 6, bit b 5, bit b 4, bit b 3, bit b 2, bit b (Suc 0), bit b 0]"
  by (simp_all add: low_bits_padded_def upt_rec eval_nat_numeral)

lemma crc9_at:
  "crc9 crc b 1 = foldl crc9_shift crc (low_bits_padded b 1)"
  "crc9 crc b 2 = foldl crc9_shift crc (low_bits_padded b 2)"
  "crc9 crc b 3 = foldl crc9_shift crc (low_bits_padded b 3)"
  "crc9 crc b 4 = foldl crc9_shift crc (low_bits_padded b 4)"
  "crc9 crc b 5 = foldl crc9_shift crc (low_bits_padded b 5)"
  "crc9 crc b 6 = foldl crc9_shift crc (low_bits_padded b 6)"
  "crc9 crc b 7 = foldl crc9_shift crc (low_bits_padded b 7)"
  "crc9 crc b 8 = foldl crc9_shift crc (low_bits_padded b 8)"
  unfolding crc9_def crc9_mask_values low_bits_padded_values
  by (simp_all add: and_bit_numerals)

lemma and_0x100_pos: "(0 < (crc :: u16) AND 0x0100) = bit crc 8"
proof -
  have "(0 < crc AND 2 ^ 8) = bit crc 8"
    by (simp add: word_greater_zero_iff bit_iff_and_push_bit_not_eq_0 push_bit_eq_mult)
  then show ?thesis by simp
qed

lemma crc9_shift_eq:
  "crc9_shift crc inject =
     ((push_bit 1 crc AND 0x01ff) OR (if inject then 1 else 0)) XOR (if bit crc 8 then 0x0059 else 0)"
proof -
  have ev: "even (push_bit 1 crc AND (0x01ff :: u16))"
    by (simp add: even_and_iff)
  have "(push_bit 1 crc AND (0x01ff :: u16)) OR 1 = (push_bit 1 crc AND 0x01ff) + 1"
    using ev by (simp add: or_one_eq)
  then show ?thesis
    by (simp add: crc9_shift_def Let_def and_0x100_pos)
qed

lemma top_bits_8: "top_bits b 8 = low_bits_padded b 8"
  by (simp add: top_bits_def low_bits_padded_def)

text \<open>C6, amended. For every byte \<open>b\<close> and every \<open>bits\<close> from 1 to 8, one call of \<^verbatim>\<open>crc9\<close>
  shifts the register exactly eight times: it feeds bit \<open>bits - 1\<close> down to bit 0 of \<open>b\<close>, then
  \<open>8 - bits\<close> zero bits. Each shift drops the register's bit 8, moves the rest up by one, puts
  the fed bit into bit 0 and XORs \<open>0x059\<close> in when the dropped bit was set. For \<open>bits = 8\<close>
  the fed bits are the eight bits of \<open>b\<close>, most significant first, and nothing else.\<close>

theorem crc9_feeds_low_bits:
  assumes "1 \<le> bits" and "bits \<le> 8"
  shows "crc9 crc b bits = foldl crc9_shift crc (low_bits_padded b (nat bits)) \<and>
         length (low_bits_padded b (nat bits)) = 8 \<and>
         crc9 crc b 8 = crc9_top_bits crc b 8 \<and>
         crc9_shift crc inject =
           ((push_bit 1 crc AND 0x01ff) OR (if inject then 1 else 0)) XOR
           (if bit crc 8 then 0x0059 else 0)"
proof -
  from assms have "bits \<in> {1, 2, 3, 4, 5, 6, 7, 8}" by auto
  then have "crc9 crc b bits = foldl crc9_shift crc (low_bits_padded b (nat bits))"
    using crc9_at[of crc b] by auto
  moreover have "length (low_bits_padded b (nat bits)) = 8"
    using assms by (simp add: low_bits_padded_def)
  moreover have "crc9 crc b 8 = crc9_top_bits crc b 8"
    by (simp only: crc9_top_bits_def top_bits_8 crc9_at(8))
  ultimately show ?thesis using crc9_shift_eq[of crc inject] by simp
qed

theorem crc9_feeds_low_bits_witness:
  "crc9 0x1ff 0xA5 5 = foldl crc9_shift 0x1ff (low_bits_padded 0xA5 5) \<and>
   low_bits_padded 0xA5 5 = [False, False, True, False, True, False, False, False] \<and>
   crc9 0x1ff 0xA5 5 = 327"
proof -
  have v: "foldl crc9_shift 0x1ff [False, False, True, False, True, False, False, False] = 327"
    by code_simp
  have l: "low_bits_padded 0xA5 5 = [False, False, True, False, True, False, False, False]"
    by code_simp
  from crc9_feeds_low_bits [of 5 "0x1ff" "0xA5"] v l show ?thesis by simp
qed

text \<open>C6 as stated fails for \<open>bits < 8\<close>: with register 1, byte 0 and \<open>bits = 1\<close> the code
  shifts eight times and leaves \<open>0x100\<close>, where feeding the top bit alone leaves 2; no single
  shift, whatever bit it feeds, gives the code's result.\<close>

theorem crc9_shifts_more_than_bits:
  "crc9 1 0 1 = 0x100 \<and> crc9_top_bits 1 0 1 = 2 \<and> crc9 1 0 1 \<noteq> crc9_top_bits 1 0 1 \<and>
   crc9 1 0 1 \<noteq> crc9_shift 1 True \<and> crc9 1 0 1 \<noteq> crc9_shift 1 False"
  by code_simp

end
